theory Spec2Isabelle
  imports Main
begin

section \<open>Python string operations used by the two services\<close>

text \<open>
  The query names handled by \<open>dns_server.py\<close> are produced by \<open>str(request.q.qname)\<close>
  and the HTTP parameters of \<open>main.py\<close> are Python \<open>str\<close> values.  They are modelled
  as \<open>string\<close>; every operation below is the one-character-separator instance of the
  Python method of the same name, which is the only way the source calls it.
\<close>

definition lower_char :: "char \<Rightarrow> char" where
  \<comment> \<open>\<open>str.lower\<close> on one character: the letters \<open>A\<close> to \<open>Z\<close> become \<open>a\<close> to \<open>z\<close>,
      every other ASCII character stays.\<close>
  "lower_char c =
     (case map_of (zip ''ABCDEFGHIJKLMNOPQRSTUVWXYZ'' ''abcdefghijklmnopqrstuvwxyz'') c of
        None \<Rightarrow> c
      | Some l \<Rightarrow> l)"

definition str_lower :: "string \<Rightarrow> string" where
  "str_lower s = map lower_char s"

definition str_endswith :: "string \<Rightarrow> string \<Rightarrow> bool" where
  \<comment> \<open>\<open>s.endswith(suf)\<close>\<close>
  "str_endswith s suf =
     (length suf \<le> length s \<and> drop (length s - length suf) s = suf)"

definition str_rstrip :: "char \<Rightarrow> string \<Rightarrow> string" where
  \<comment> \<open>\<open>s.rstrip(c)\<close>: every trailing occurrence of \<open>c\<close> is removed.\<close>
  "str_rstrip c s = rev (dropWhile (\<lambda>x. x = c) (rev s))"

fun str_split :: "char \<Rightarrow> string \<Rightarrow> string list" where
  \<comment> \<open>\<open>s.split(sep)\<close> with an explicit separator: the empty string gives one empty
      part, and adjacent separators give empty parts.\<close>
  "str_split sep [] = [[]]"
| "str_split sep (c # cs) =
     (if c = sep then [] # str_split sep cs
      else (case str_split sep cs of
              [] \<Rightarrow> [[c]]
            | p # ps \<Rightarrow> (c # p) # ps))"

definition str_replace :: "char \<Rightarrow> string \<Rightarrow> string \<Rightarrow> string" where
  \<comment> \<open>\<open>s.replace(old, new)\<close> for a one-character \<open>old\<close>: every occurrence is replaced.\<close>
  "str_replace old new s = concat (map (\<lambda>c. if c = old then new else [c]) s)"

fun str_join :: "string \<Rightarrow> string list \<Rightarrow> string" where
  \<comment> \<open>\<open>sep.join(parts)\<close>\<close>
  "str_join sep [] = []"
| "str_join sep [p] = p"
| "str_join sep (p # q # ps) = p @ sep @ str_join sep (q # ps)"

section \<open>The DNS beacon resolver (\<open>dns_server.py\<close>)\<close>

definition BEACON_SUFFIX :: string where
  "BEACON_SUFFIX = ''.b.backup-monitor.gr.''"

subsection \<open>Decoding of a query name (\<open>BeaconResolver.resolve\<close>, lines 65 to 72)\<close>

record beacon_fields =
  dec_fingerprint :: "string option"
  dec_src_hash :: "string option"
  dec_tool_version :: "string option"

definition is_beacon :: "string \<Rightarrow> bool" where
  \<comment> \<open>\<open>qname.lower().endswith(BEACON_SUFFIX.lower())\<close>\<close>
  "is_beacon qname = str_endswith (str_lower qname) (str_lower BEACON_SUFFIX)"

definition beacon_parts :: "string \<Rightarrow> string list" where
  \<comment> \<open>\<open>prefix = qname[: -(len(BEACON_SUFFIX))].rstrip(".")\<close>, \<open>parts = prefix.split(".")\<close>.
      The suffix is not empty, so the slice keeps the first \<open>len(qname) - len(suffix)\<close>
      characters, none when the name is shorter.\<close>
  "beacon_parts qname =
     (let prefix = str_rstrip (CHR ''.'') (take (length qname - length BEACON_SUFFIX) qname)
      in str_split (CHR ''.'') prefix)"

definition decode_parts :: "string list \<Rightarrow> beacon_fields" where
  \<comment> \<open>Lines 70 to 72: each field is read at its position when the list is long enough.\<close>
  "decode_parts parts =
     \<lparr> dec_fingerprint = (if length parts \<ge> 1 then Some (parts ! 0) else None),
       dec_src_hash = (if length parts \<ge> 2 then Some (parts ! 1) else None),
       dec_tool_version =
         (if length parts \<ge> 3 then Some (str_replace (CHR ''-'') ''.'' (parts ! 2)) else None) \<rparr>"

definition decode_beacon :: "string \<Rightarrow> beacon_fields option" where
  \<comment> \<open>The test of line 65 and the decoding below it; \<open>None\<close> is the branch not taken.\<close>
  "decode_beacon qname =
     (if is_beacon qname then Some (decode_parts (beacon_parts qname)) else None)"

subsection \<open>Connection state and the store (\<open>BeaconResolver\<close>, lines 19 to 56)\<close>

text \<open>
  \<open>psycopg2\<close> is an external library.  What a call to it does in one handling of a query
  is an input of the model: for each of \<open>psycopg2.connect\<close>, \<open>cur.execute\<close> and
  \<open>conn.close\<close> either no exception (\<open>None\<close>) or the exception raised.  All of them
  are subclasses of \<open>Exception\<close>, which is what the three handlers of the source catch.
\<close>

datatype db_error = OperationalError | InterfaceError | DataError | ProgrammingError

record db_outcome =
  connect_result :: "db_error option"
  insert_result :: "db_error option"
  close_result :: "db_error option"

record connection =
  closed :: bool
  autocommit :: bool

record beacon_row =
  row_source_ip :: "string option"
  row_source_port :: "int option"
  row_query_name :: string
  row_fingerprint :: "string option"
  row_src_hash :: "string option"
  row_tool_version :: "string option"

text \<open>
  The state threaded through the calls: the two attributes of the resolver object, and
  what the resolver has done to its surroundings so far (the number of calls of
  \<open>psycopg2.connect\<close>, the number of calls of \<open>close\<close> on a connection, the arguments
  of \<open>time.sleep\<close> in order, the rows of table \<open>dns_beacon_log\<close> inserted by this
  resolver).  The \<open>print\<close> calls are left out.
\<close>

record resolver_state =
  conn :: "connection option"
  backoff :: int
  connect_calls :: nat
  close_calls :: nat
  sleeps :: "int list"
  dns_beacon_log :: "beacon_row list"

definition init :: resolver_state where
  \<comment> \<open>\<open>__init__\<close>, before anything has happened.\<close>
  "init = \<lparr> conn = None, backoff = 1, connect_calls = 0, close_calls = 0, sleeps = [],
            dns_beacon_log = [] \<rparr>"

definition needs_connect :: "resolver_state \<Rightarrow> bool" where
  \<comment> \<open>\<open>self._conn is None or self._conn.closed\<close>\<close>
  "needs_connect s = (case conn s of None \<Rightarrow> True | Some c \<Rightarrow> closed c)"

definition get_conn :: "db_outcome \<Rightarrow> resolver_state \<Rightarrow> connection option \<times> resolver_state" where
  \<comment> \<open>\<open>_get_conn\<close>: at most one connection attempt; its \<open>except\<close> branch sleeps for the
      current backoff and then doubles it up to 60.\<close>
  "get_conn env s =
     (if needs_connect s then
        (case connect_result env of
           None \<Rightarrow>
             let s1 = s\<lparr> connect_calls := connect_calls s + 1,
                         conn := Some \<lparr> closed = False, autocommit = True \<rparr>,
                         backoff := 1 \<rparr>
             in (conn s1, s1)
         | Some e \<Rightarrow>
             let s1 = s\<lparr> connect_calls := connect_calls s + 1,
                         conn := None,
                         sleeps := sleeps s @ [backoff s],
                         backoff := min (backoff s * 2) 60 \<rparr>
             in (conn s1, s1))
      else (conn s, s))"

definition execute_insert ::
  "db_outcome \<Rightarrow> beacon_row \<Rightarrow> resolver_state \<Rightarrow> (db_error + unit) \<times> resolver_state" where
  \<comment> \<open>The body of the \<open>try\<close> of \<open>_log_beacon\<close> (lines 44 to 49): \<open>Inl\<close> is the exception
      raised, and the row is in the table only when there was none.\<close>
  "execute_insert env row s =
     (case insert_result env of
        None \<Rightarrow> (Inr (), s\<lparr> dns_beacon_log := dns_beacon_log s @ [row] \<rparr>)
      | Some e \<Rightarrow> (Inl e, s))"

definition close_conn :: "db_outcome \<Rightarrow> resolver_state \<Rightarrow> (db_error + unit) \<times> resolver_state" where
  \<comment> \<open>\<open>self._conn.close()\<close> (line 53): the call is counted whether it raises or not, and
      the connection is closed when it does not.\<close>
  "close_conn env s =
     (case close_result env of
        None \<Rightarrow>
          (Inr (), s\<lparr> close_calls := close_calls s + 1,
                      conn := map_option (\<lambda>c. c\<lparr> closed := True \<rparr>) (conn s) \<rparr>)
      | Some e \<Rightarrow> (Inl e, s\<lparr> close_calls := close_calls s + 1 \<rparr>))"

definition log_beacon ::
  "db_outcome \<Rightarrow> beacon_row \<Rightarrow> resolver_state \<Rightarrow> (db_error + unit) \<times> resolver_state" where
  \<comment> \<open>\<open>_log_beacon\<close>.  The result \<open>Inl e\<close> would be an exception leaving the method.\<close>
  "log_beacon env row s =
     (case get_conn env s of
        (None, s1) \<Rightarrow> (Inr (), s1)
      | (Some c, s1) \<Rightarrow>
          (case execute_insert env row s1 of
             (Inr u, s2) \<Rightarrow> (Inr (), s2)
           | (Inl e, s2) \<Rightarrow>
               \<comment> \<open>\<open>except Exception\<close>: close, ignoring a failure of the close, and forget\<close>
               (case close_conn env s2 of
                  (r, s3) \<Rightarrow> (Inr (), s3\<lparr> conn := None \<rparr>))))"

subsection \<open>Answering a query (\<open>BeaconResolver.resolve\<close>)\<close>

datatype rcode = NOERROR | FORMERR | SERVFAIL | NXDOMAIN | NOTIMP | REFUSED

record dns_reply =
  reply_qname :: string
  reply_rcode :: rcode

definition request_reply :: "string \<Rightarrow> dns_reply" where
  \<comment> \<open>\<open>request.reply()\<close> of \<open>dnslib\<close>: a reply for the same question, result code 0.\<close>
  "request_reply qname = \<lparr> reply_qname = qname, reply_rcode = NOERROR \<rparr>"

definition resolve ::
  "db_outcome \<Rightarrow> string \<Rightarrow> (string \<times> int) option \<Rightarrow> resolver_state
     \<Rightarrow> (db_error + dns_reply) \<times> resolver_state" where
  \<comment> \<open>\<open>resolve\<close>, with \<open>qname = str(request.q.qname)\<close> and
      \<open>source = handler.client_address\<close>, a host and port pair when there is one.\<close>
  "resolve env qname source s =
     (let reply = (request_reply qname)\<lparr> reply_rcode := NXDOMAIN \<rparr> in
      case decode_beacon qname of
        None \<Rightarrow> (Inr reply, s)
      | Some f \<Rightarrow>
          (let source_ip = map_option fst source;
               source_port = map_option snd source;
               row = \<lparr> row_source_ip = source_ip, row_source_port = source_port,
                       row_query_name = qname, row_fingerprint = dec_fingerprint f,
                       row_src_hash = dec_src_hash f,
                       row_tool_version = dec_tool_version f \<rparr>
           in case log_beacon env row s of
                (Inl e, s1) \<Rightarrow> (Inl e, s1)
              | (Inr u, s1) \<Rightarrow> (Inr reply, s1)))"

section \<open>The telemetry API (\<open>main.py\<close>)\<close>

subsection \<open>Values decoded from JSON\<close>

text \<open>
  \<open>request.json()\<close> yields \<open>None\<close>, a \<open>bool\<close>, an \<open>int\<close>, a \<open>float\<close>, a \<open>str\<close>, a
  \<open>list\<close> or a \<open>dict\<close>.  A float is kept as mantissa and exponent, or as one of the
  three non-finite values that \<open>json.loads\<close> accepts; a dict as the list of its items.
\<close>

datatype pyfloat = Finite int int | Infinity | NegInfinity | NaN

datatype json =
    JNull
  | JBool bool
  | JInt int
  | JFloat pyfloat
  | JStr string
  | JList "json list"
  | JObj "(string \<times> json) list"

fun truthy :: "json \<Rightarrow> bool" where
  \<comment> \<open>The truth value Python gives the object in \<open>if ts_raw:\<close>.\<close>
  "truthy JNull = False"
| "truthy (JBool b) = b"
| "truthy (JInt i) = (i \<noteq> 0)"
| "truthy (JFloat f) = (case f of Finite m e \<Rightarrow> m \<noteq> 0 | _ \<Rightarrow> True)"
| "truthy (JStr s) = (s \<noteq> [])"
| "truthy (JList xs) = (xs \<noteq> [])"
| "truthy (JObj kvs) = (kvs \<noteq> [])"

definition dict_get :: "(string \<times> json) list \<Rightarrow> string \<Rightarrow> json" where
  \<comment> \<open>\<open>body.get(key)\<close>: \<open>None\<close> for a missing key.\<close>
  "dict_get kvs k = (case map_of kvs k of None \<Rightarrow> JNull | Some v \<Rightarrow> v)"

definition dict_get_default :: "(string \<times> json) list \<Rightarrow> string \<Rightarrow> json \<Rightarrow> json" where
  \<comment> \<open>\<open>body.get(key, default)\<close>\<close>
  "dict_get_default kvs k d = (case map_of kvs k of None \<Rightarrow> d | Some v \<Rightarrow> v)"

datatype py_exception = ValueError | AttributeError | PostgresError

fun value_replace :: "json \<Rightarrow> char \<Rightarrow> string \<Rightarrow> py_exception + string" where
  \<comment> \<open>\<open>v.replace(old, new)\<close> on a decoded value: only \<open>str\<close> has the method.\<close>
  "value_replace (JStr s) old new = Inr (str_replace old new s)"
| "value_replace v old new = Inl AttributeError"

definition datetime_fromisoformat :: "(string \<Rightarrow> 'dt option) \<Rightarrow> string \<Rightarrow> py_exception + 'dt" where
  \<comment> \<open>\<open>datetime.fromisoformat\<close> belongs to the Python library: the texts it accepts and
      the values it returns are the parameter \<open>parse\<close>; a rejected text raises
      \<open>ValueError\<close>.\<close>
  "datetime_fromisoformat parse s = (case parse s of None \<Rightarrow> Inl ValueError | Some d \<Rightarrow> Inr d)"

subsection \<open>\<open>POST /api/v1/telemetry\<close> (\<open>ingest_telemetry\<close>)\<close>

definition parse_client_ts ::
  "(string \<Rightarrow> 'dt option) \<Rightarrow> (string \<times> json) list \<Rightarrow> py_exception + 'dt option" where
  \<comment> \<open>Lines 88 to 94.  The handler catches \<open>ValueError\<close> and \<open>AttributeError\<close> and
      nothing else; \<open>Inl\<close> is an exception leaving the block.\<close>
  "parse_client_ts parse body =
     (let ts_raw = dict_get body ''timestamp'' in
      if truthy ts_raw then
        (case (case value_replace ts_raw (CHR ''Z'') ''+00:00'' of
                 Inl e \<Rightarrow> Inl e
               | Inr t \<Rightarrow> datetime_fromisoformat parse t) of
           Inr d \<Rightarrow> Inr (Some d)
         | Inl e \<Rightarrow> if e = ValueError \<or> e = AttributeError then Inr None else Inl e)
      else Inr None)"

record 'dt telemetry_event =
  ev_source_ip :: string
  ev_event :: json
  ev_fingerprint :: json
  ev_environment :: json
  ev_env_source :: json
  ev_public_ip :: json
  ev_server_url :: json
  ev_provider :: json
  ev_node_count :: json
  ev_cp_nodes :: json
  ev_namespace_count :: json
  ev_k10_version :: json
  ev_enterprise_score :: json
  ev_license_key_provided :: json
  ev_license_key_valid :: json
  ev_unlicensed_run_count :: json
  ev_src_hash :: json
  ev_tool_version :: json
  ev_client_timestamp :: "'dt option"
  ev_raw_payload :: "(string \<times> json) list"

definition ingest_telemetry ::
  "(string \<Rightarrow> 'dt option) \<Rightarrow> py_exception option \<Rightarrow> string \<Rightarrow> json
     \<Rightarrow> py_exception + ((string \<times> json) list \<times> 'dt telemetry_event)" where
  \<comment> \<open>\<open>ingest_telemetry\<close>.  \<open>source_ip\<close> is the address lines 81 to 85 take from the
      request; \<open>execute_result\<close> is what \<open>pool.execute\<close> does with the insert (\<open>None\<close>: no
      exception).  The result is the response with the row handed to the store, or the
      exception that leaves the handler.  A body that is not a dict has no \<open>get\<close>.\<close>
  "ingest_telemetry parse execute_result source_ip body =
     (case body of
        JObj kvs \<Rightarrow>
          (case parse_client_ts parse kvs of
             Inl e \<Rightarrow> Inl e
           | Inr client_ts \<Rightarrow>
               (case execute_result of
                  Some e \<Rightarrow> Inl e
                | None \<Rightarrow>
                    Inr ([(''status'', JStr ''ok'')],
                         \<lparr> ev_source_ip = source_ip,
                           ev_event = dict_get_default kvs ''event'' (JStr ''unknown''),
                           ev_fingerprint = dict_get kvs ''fingerprint'',
                           ev_environment = dict_get kvs ''environment'',
                           ev_env_source = dict_get kvs ''env_source'',
                           ev_public_ip = dict_get kvs ''public_ip'',
                           ev_server_url = dict_get kvs ''server_url'',
                           ev_provider = dict_get kvs ''provider'',
                           ev_node_count = dict_get kvs ''node_count'',
                           ev_cp_nodes = dict_get kvs ''cp_nodes'',
                           ev_namespace_count = dict_get kvs ''namespace_count'',
                           ev_k10_version = dict_get kvs ''k10_version'',
                           ev_enterprise_score = dict_get kvs ''enterprise_score'',
                           ev_license_key_provided = dict_get kvs ''license_key_provided'',
                           ev_license_key_valid = dict_get kvs ''license_key_valid'',
                           ev_unlicensed_run_count = dict_get kvs ''unlicensed_run_count'',
                           ev_src_hash = dict_get kvs ''src_hash'',
                           ev_tool_version = dict_get kvs ''tool_version'',
                           ev_client_timestamp = client_ts,
                           ev_raw_payload = kvs \<rparr>)))
      | _ \<Rightarrow> Inl AttributeError)"

subsection \<open>\<open>GET /api/v1/telemetry\<close> and \<open>GET /api/v1/dns\<close>\<close>

definition digit_char :: "nat \<Rightarrow> char" where
  \<comment> \<open>The decimal digit \<open>d\<close>, for \<open>d < 10\<close>.\<close>
  "digit_char d = ''0123456789'' ! d"

fun str_nat :: "nat \<Rightarrow> string" where
  "str_nat n =
     (if n < 10 then [digit_char n] else str_nat (n div 10) @ [digit_char (n mod 10)])"

definition str_int :: "int \<Rightarrow> string" where
  \<comment> \<open>\<open>str(i)\<close>, as the f-strings use it on \<open>idx\<close>.\<close>
  "str_int i = (if i < 0 then CHR ''-'' # str_nat (nat (- i)) else str_nat (nat i))"

definition given :: "string option \<Rightarrow> string option" where
  \<comment> \<open>The test \<open>if p:\<close> on a parameter of type \<open>str | None\<close>: \<open>None\<close> and the empty
      string are both false.\<close>
  "given p = (case p of None \<Rightarrow> None | Some v \<Rightarrow> if v = [] then None else Some v)"

datatype 'dt sql_param = PStr string | PTime 'dt | PInt int

datatype 'dt query_result =
    JSONResponse "(string \<times> json) list" int
  | Fetch string "'dt sql_param list"

text \<open>
  \<open>Fetch sql args\<close> is the call \<open>pool.fetch(sql, *args)\<close>; the rows it returns, and
  their projection to JSON, depend on the store and are not part of the model.
  \<open>JSONResponse body status\<close> is the early return, before any call of the pool.  A
  parameter left out of the request has its default: \<open>None\<close>, and 100 for \<open>limit\<close>.
\<close>

definition query_telemetry ::
  "(string \<Rightarrow> 'dt option) \<Rightarrow> string option \<Rightarrow> string option \<Rightarrow> string option \<Rightarrow> int option
     \<Rightarrow> 'dt query_result" where
  "query_telemetry parse fingerprint environment since limit_arg =
     (let limit = (case limit_arg of None \<Rightarrow> 100 | Some l \<Rightarrow> l);
          clauses = []; params = []; idx = (1::int);
          (clauses, params, idx) =
            (case given fingerprint of
               Some v \<Rightarrow> (clauses @ [''fingerprint = $'' @ str_int idx], params @ [PStr v], idx + 1)
             | None \<Rightarrow> (clauses, params, idx));
          (clauses, params, idx) =
            (case given environment of
               Some v \<Rightarrow> (clauses @ [''environment = $'' @ str_int idx], params @ [PStr v], idx + 1)
             | None \<Rightarrow> (clauses, params, idx));
          finish = (\<lambda>(clauses, params, idx).
            let where = (if clauses \<noteq> [] then ''WHERE '' @ str_join '' AND '' clauses else []);
                limit = min (max 1 limit) 1000
            in Fetch (''SELECT * FROM telemetry_events '' @ where
                        @ '' ORDER BY received_at DESC LIMIT $'' @ str_int idx)
                     (params @ [PInt limit]))
      in case given since of
           None \<Rightarrow> finish (clauses, params, idx)
         | Some v \<Rightarrow>
             (let clauses = clauses @ [''received_at >= $'' @ str_int idx] in
              case datetime_fromisoformat parse (str_replace (CHR ''Z'') ''+00:00'' v) of
                Inl e \<Rightarrow> JSONResponse [(''error'', JStr ''invalid 'since' format'')] 400
              | Inr t \<Rightarrow> finish (clauses, params @ [PTime t], idx + 1)))"

definition query_dns ::
  "(string \<Rightarrow> 'dt option) \<Rightarrow> string option \<Rightarrow> string option \<Rightarrow> int option \<Rightarrow> 'dt query_result" where
  "query_dns parse fingerprint since limit_arg =
     (let limit = (case limit_arg of None \<Rightarrow> 100 | Some l \<Rightarrow> l);
          clauses = []; params = []; idx = (1::int);
          (clauses, params, idx) =
            (case given fingerprint of
               Some v \<Rightarrow> (clauses @ [''fingerprint = $'' @ str_int idx], params @ [PStr v], idx + 1)
             | None \<Rightarrow> (clauses, params, idx));
          finish = (\<lambda>(clauses, params, idx).
            let where = (if clauses \<noteq> [] then ''WHERE '' @ str_join '' AND '' clauses else []);
                limit = min (max 1 limit) 1000
            in Fetch (''SELECT * FROM dns_beacon_log '' @ where
                        @ '' ORDER BY received_at DESC LIMIT $'' @ str_int idx)
                     (params @ [PInt limit]))
      in case given since of
           None \<Rightarrow> finish (clauses, params, idx)
         | Some v \<Rightarrow>
             (let clauses = clauses @ [''received_at >= $'' @ str_int idx] in
              case datetime_fromisoformat parse (str_replace (CHR ''Z'') ''+00:00'' v) of
                Inl e \<Rightarrow> JSONResponse [(''error'', JStr ''invalid 'since' format'')] 400
              | Inr t \<Rightarrow> finish (clauses, params @ [PTime t], idx + 1)))"

section \<open>Definitions used to state the properties\<close>

definition get_conn_calls :: "db_outcome list \<Rightarrow> resolver_state \<Rightarrow> resolver_state" where
  \<comment> \<open>Successive calls of \<open>_get_conn\<close>, one for each outcome of the list, in order.\<close>
  "get_conn_calls envs s = fold (\<lambda>env t. snd (get_conn env t)) envs s"

definition label_at :: "string list \<Rightarrow> nat \<Rightarrow> string option" where
  \<comment> \<open>The label at a position, null when the position does not exist.\<close>
  "label_at ls i = (if i < length ls then Some (ls ! i) else None)"

definition spec_decode_labels :: "string list \<Rightarrow> beacon_fields" where
  \<comment> \<open>The decoding as the specification words it, on the labels in front of the
      suffix: by position, the third with every \<open>-\<close> replaced by \<open>.\<close>.\<close>
  "spec_decode_labels ls =
     \<lparr> dec_fingerprint = label_at ls 0,
       dec_src_hash = label_at ls 1,
       dec_tool_version = map_option (str_replace (CHR ''-'') ''.'') (label_at ls 2) \<rparr>"

section \<open>The beacon decoder\<close>

lemma str_split_no_sep: "sep \<notin> set p \<Longrightarrow> str_split sep p = [p]"
  by (induction p) auto

lemma str_split_append_sep:
  "sep \<notin> set p \<Longrightarrow> str_split sep (p @ sep # r) = p # str_split sep r"
  by (induction p) auto

lemma str_split_join:
  assumes "ls \<noteq> []" and "\<forall>l \<in> set ls. sep \<notin> set l"
  shows "str_split sep (str_join [sep] ls) = ls"
  using assms
proof (induction "[sep]" ls rule: str_join.induct)
  case 1
  then show ?case by simp
next
  case (2 p)
  then show ?case by (simp add: str_split_no_sep)
next
  case (3 p q ps)
  then show ?case by (simp add: str_split_append_sep)
qed

lemma str_rstrip_id:
  assumes "s \<noteq> []" and "last s \<noteq> c"
  shows "str_rstrip c s = s"
proof -
  from assms(1) obtain ys y where s: "s = ys @ [y]"
    by (cases s rule: rev_cases) auto
  with assms(2) show ?thesis
    by (simp add: str_rstrip_def)
qed

lemma str_join_last:
  assumes "ls \<noteq> []" and "last ls \<noteq> []"
  shows "str_join sep ls \<noteq> [] \<and> last (str_join sep ls) = last (last ls)"
  using assms
  by (induction sep ls rule: str_join.induct) auto

lemma length_str_lower: "length (str_lower s) = length s"
  by (simp add: str_lower_def)

lemma is_beacon_append:
  assumes "str_lower sfx = str_lower BEACON_SUFFIX"
  shows "is_beacon (p @ sfx)"
proof -
  from assms have "length sfx = length BEACON_SUFFIX"
    by (metis length_str_lower)
  then show ?thesis
    using assms by (simp add: is_beacon_def str_endswith_def str_lower_def)
qed

text \<open>
  The test of line 65 is the case-insensitive suffix test: it holds exactly when the
  name ends with some spelling of the suffix that differs from it in letter case only.
\<close>

lemma is_beacon_iff_ci_suffix:
  "is_beacon qname \<longleftrightarrow>
     (\<exists>p sfx. qname = p @ sfx \<and> str_lower sfx = str_lower BEACON_SUFFIX)"
proof
  assume b: "is_beacon qname"
  let ?n = "length qname - length BEACON_SUFFIX"
  have "qname = take ?n qname @ drop ?n qname" by simp
  moreover from b have "str_lower (drop ?n qname) = str_lower BEACON_SUFFIX"
    by (simp add: is_beacon_def str_endswith_def str_lower_def drop_map)
  ultimately show "\<exists>p sfx. qname = p @ sfx \<and> str_lower sfx = str_lower BEACON_SUFFIX"
    by blast
next
  assume "\<exists>p sfx. qname = p @ sfx \<and> str_lower sfx = str_lower BEACON_SUFFIX"
  then show "is_beacon qname" using is_beacon_append by blast
qed

lemma beacon_parts_join:
  assumes "ls \<noteq> []" and "last ls \<noteq> []" and "\<forall>l \<in> set ls. CHR ''.'' \<notin> set l"
    and "str_lower sfx = str_lower BEACON_SUFFIX"
  shows "beacon_parts (str_join ''.'' ls @ sfx) = ls"
proof -
  let ?j = "str_join ''.'' ls"
  from assms(4) have len: "length sfx = length BEACON_SUFFIX"
    by (metis length_str_lower)
  from assms(1,2,3) have l: "last ls \<noteq> []" "CHR ''.'' \<notin> set (last ls)"
    by simp_all
  with assms(1) have j: "?j \<noteq> []" "last ?j = last (last ls)"
    using str_join_last by blast+
  from l have "last (last ls) \<noteq> CHR ''.''"
    by (metis last_in_set)
  with j have "str_rstrip (CHR ''.'') ?j = ?j"
    by (simp add: str_rstrip_id)
  moreover from assms(1,3) have "str_split (CHR ''.'') ?j = ls"
    by (simp add: str_split_join)
  ultimately show ?thesis
    by (simp add: beacon_parts_def len)
qed

lemma decode_parts_spec: "decode_parts ls = spec_decode_labels ls"
  by (cases ls) (auto simp: decode_parts_def spec_decode_labels_def label_at_def not_le)

lemmas decode_eval =
  decode_beacon_def is_beacon_def str_endswith_def str_lower_def lower_char_def
  BEACON_SUFFIX_def beacon_parts_def decode_parts_def str_rstrip_def str_replace_def

lemmas resolve_eval =
  resolve_def log_beacon_def get_conn_def needs_connect_def execute_insert_def
  close_conn_def request_reply_def init_def

text \<open>
  C1.  A query name that is exactly the suffix: the specification asks for a beacon match
  whose three fields are all null, and for a row.  The name is a match and the row is
  written, but \<open>"".split(".")\<close> is the one-element list of the empty string, so the test
  \<open>len(parts) >= 1\<close> of line 70 holds and the fingerprint is the empty string, not null.
\<close>

theorem suffix_only_query_fingerprint_is_empty_string:
  "decode_beacon ''.b.backup-monitor.gr.''
     = Some \<lparr> dec_fingerprint = Some '''', dec_src_hash = None, dec_tool_version = None \<rparr>
   \<and> resolve \<lparr> connect_result = None, insert_result = None, close_result = None \<rparr>
        ''.b.backup-monitor.gr.'' (Some (''192.0.2.7'', 40000)) init
     = (Inr \<lparr> reply_qname = ''.b.backup-monitor.gr.'', reply_rcode = NXDOMAIN \<rparr>,
        \<lparr> conn = Some \<lparr> closed = False, autocommit = True \<rparr>, backoff = 1,
          connect_calls = 1, close_calls = 0, sleeps = [],
          dns_beacon_log =
            [\<lparr> row_source_ip = Some ''192.0.2.7'', row_source_port = Some 40000,
               row_query_name = ''.b.backup-monitor.gr.'', row_fingerprint = Some '''',
               row_src_hash = None, row_tool_version = None \<rparr>] \<rparr>)"
  by (simp add: decode_eval resolve_eval)

text \<open>
  C5.  Labels are decoded by position, and a field whose position has no label is null.
  The code does so whenever there is a label in front of the suffix (see
  \<open>decode_labels_by_position\<close> below), but not for the field of position 0 when there is
  no label at all: the specification's decoding of the empty list of labels has a null
  fingerprint, and the code returns the empty string for the name made of no label and
  the suffix, because the test \<open>len(parts) >= 1\<close> of line 70 can never fail.
\<close>

theorem no_label_fingerprint_is_not_null:
  "str_join ''.'' [] @ BEACON_SUFFIX = ''.b.backup-monitor.gr.''
   \<and> spec_decode_labels []
       = \<lparr> dec_fingerprint = None, dec_src_hash = None, dec_tool_version = None \<rparr>
   \<and> beacon_parts (str_join ''.'' [] @ BEACON_SUFFIX) = ['''']
   \<and> decode_beacon (str_join ''.'' [] @ BEACON_SUFFIX)
       = Some \<lparr> dec_fingerprint = Some '''', dec_src_hash = None, dec_tool_version = None \<rparr>
   \<and> decode_beacon (str_join ''.'' [] @ BEACON_SUFFIX) \<noteq> Some (spec_decode_labels [])"
  by (simp add: decode_eval spec_decode_labels_def label_at_def)

text \<open>
  With at least one label the code decodes as the specification says.  For a name made
  of labels without a dot, the last of them not empty, joined by dots, in front of the
  suffix in any letter case: the first label is the fingerprint, the second the source
  hash, the third with every \<open>-\<close> replaced by \<open>.\<close> the tool version; a field whose
  position is 1 or 2 and has no label is null; labels from position 3 on are ignored.
\<close>

lemma decode_labels_by_position:
  assumes "ls \<noteq> []"
    and "last ls \<noteq> []"
    and "\<forall>l \<in> set ls. CHR ''.'' \<notin> set l"
    and "str_lower sfx = str_lower BEACON_SUFFIX"
  shows "decode_beacon (str_join ''.'' ls @ sfx) = Some (spec_decode_labels ls)"
  using assms
  by (simp add: decode_beacon_def is_beacon_append beacon_parts_join decode_parts_spec)

lemma decode_labels_by_position_examples:
  "decode_beacon ''abc123.deadbeef.1-2-3.b.backup-monitor.gr.''
     = Some \<lparr> dec_fingerprint = Some ''abc123'', dec_src_hash = Some ''deadbeef'',
              dec_tool_version = Some ''1.2.3'' \<rparr>
   \<and> decode_beacon ''abc123.B.Backup-Monitor.GR.''
     = Some \<lparr> dec_fingerprint = Some ''abc123'', dec_src_hash = None,
              dec_tool_version = None \<rparr>
   \<and> decode_beacon ''a.b.1-0.extra.more.b.backup-monitor.gr.''
     = Some \<lparr> dec_fingerprint = Some ''a'', dec_src_hash = Some ''b'',
              dec_tool_version = Some ''1.0'' \<rparr>
   \<and> decode_beacon ''..a.b.backup-monitor.gr.''
     = Some \<lparr> dec_fingerprint = Some '''', dec_src_hash = Some '''',
              dec_tool_version = Some ''a'' \<rparr>"
  using decode_labels_by_position [of "[''abc123'', ''deadbeef'', ''1-2-3'']" BEACON_SUFFIX]
    decode_labels_by_position [of "[''abc123'']" "''.B.Backup-Monitor.GR.''"]
    decode_labels_by_position [of "[''a'', ''b'', ''1-0'', ''extra'', ''more'']" BEACON_SUFFIX]
    decode_labels_by_position [of "['''', '''', ''a'']" BEACON_SUFFIX]
  by (simp add: BEACON_SUFFIX_def spec_decode_labels_def label_at_def str_replace_def
      str_lower_def lower_char_def)

section \<open>The resolver and its connection\<close>

lemma get_conn_failure:
  assumes "needs_connect s" and "connect_result env = Some e"
  shows "get_conn env s =
           (None, s\<lparr> connect_calls := connect_calls s + 1, conn := None,
                     sleeps := sleeps s @ [backoff s], backoff := min (backoff s * 2) 60 \<rparr>)"
  using assms by (simp add: get_conn_def)

lemma get_conn_success:
  assumes "needs_connect s" and "connect_result env = None"
  shows "get_conn env s =
           (Some \<lparr> closed = False, autocommit = True \<rparr>,
            s\<lparr> connect_calls := connect_calls s + 1,
               conn := Some \<lparr> closed = False, autocommit = True \<rparr>, backoff := 1 \<rparr>)"
  using assms by (simp add: get_conn_def)

lemma get_conn_reuse:
  assumes "\<not> needs_connect s"
  shows "get_conn env s = (conn s, s)"
  using assms by (simp add: get_conn_def)

lemma get_conn_backoff_le:
  assumes "backoff s \<le> 60"
  shows "backoff (snd (get_conn env s)) \<le> 60"
  using assms by (simp add: get_conn_def split: option.splits)

lemma double_capped: "min (min (2 ^ k) 60 * 2) 60 = min (2 ^ Suc k) (60::int)"
  by (cases "(2::int) ^ k \<le> 60") auto

lemma get_conn_calls_failing:
  assumes "needs_connect s" and "backoff s = min (2 ^ k) 60"
    and "\<forall>env \<in> set envs. connect_result env \<noteq> None"
  shows "needs_connect (get_conn_calls envs s) \<and>
         backoff (get_conn_calls envs s) = min (2 ^ (k + length envs)) 60 \<and>
         connect_calls (get_conn_calls envs s) = connect_calls s + length envs \<and>
         dns_beacon_log (get_conn_calls envs s) = dns_beacon_log s \<and>
         sleeps (get_conn_calls envs s)
           = sleeps s @ map (\<lambda>i. min (2 ^ (k + i)) 60) [0..<length envs]"
  using assms(3)
proof (induction envs rule: rev_induct)
  case Nil
  show ?case using assms(1,2) by (simp add: get_conn_calls_def)
next
  case (snoc env envs)
  let ?t = "get_conn_calls envs s"
  from snoc have ih: "needs_connect ?t" "backoff ?t = min (2 ^ (k + length envs)) 60"
    "connect_calls ?t = connect_calls s + length envs"
    "dns_beacon_log ?t = dns_beacon_log s"
    "sleeps ?t = sleeps s @ map (\<lambda>i. min (2 ^ (k + i)) 60) [0..<length envs]"
    by simp_all
  from snoc.prems obtain e where e: "connect_result env = Some e" by auto
  have step: "get_conn_calls (envs @ [env]) s = snd (get_conn env ?t)"
    by (simp add: get_conn_calls_def)
  show ?case
    unfolding step get_conn_failure [OF ih(1) e]
    using ih(2-5) double_capped [of "k + length envs"]
    by (simp add: needs_connect_def)
qed

lemma log_beacon_no_exception: "fst (log_beacon env row s) = Inr ()"
  by (simp add: log_beacon_def execute_insert_def close_conn_def
      split: prod.splits option.splits sum.splits)

lemma resolve_reply:
  "fst (resolve env qname source s) = Inr \<lparr> reply_qname = qname, reply_rcode = NXDOMAIN \<rparr>"
proof (cases "decode_beacon qname")
  case None
  then show ?thesis by (simp add: resolve_def request_reply_def)
next
  case (Some f)
  let ?row = "\<lparr> row_source_ip = map_option fst source, row_source_port = map_option snd source,
                 row_query_name = qname, row_fingerprint = dec_fingerprint f,
                 row_src_hash = dec_src_hash f, row_tool_version = dec_tool_version f \<rparr>"
  obtain r t where l: "log_beacon env ?row s = (r, t)" by (cases "log_beacon env ?row s")
  with log_beacon_no_exception [of env ?row s] have "r = Inr ()" by simp
  with Some l show ?thesis by (simp add: resolve_def request_reply_def)
qed

text \<open>
  C2.  Whatever the query name, the client address, the state of the resolver and the
  behaviour of the store (connection refused, insert rejected, close failing), \<open>resolve\<close>
  returns a reply, never an exception, and its result code is NXDOMAIN.
\<close>

theorem resolve_always_nxdomain:
  "fst (resolve env qname source s)
     = Inr ((request_reply qname)\<lparr> reply_rcode := NXDOMAIN \<rparr>)"
  by (simp add: resolve_reply request_reply_def)

theorem resolve_always_nxdomain_witness:
  "fst (resolve \<lparr> connect_result = Some OperationalError, insert_result = None,
                   close_result = None \<rparr>
          ''abc123.deadbeef.1-2-3.b.backup-monitor.gr.'' (Some (''192.0.2.7'', 40000)) init)
     = Inr \<lparr> reply_qname = ''abc123.deadbeef.1-2-3.b.backup-monitor.gr.'',
             reply_rcode = NXDOMAIN \<rparr>
   \<and> fst (resolve \<lparr> connect_result = None, insert_result = Some DataError,
                    close_result = Some InterfaceError \<rparr>
            ''abc123.deadbeef.1-2-3.b.backup-monitor.gr.'' (Some (''192.0.2.7'', 40000)) init)
       = Inr \<lparr> reply_qname = ''abc123.deadbeef.1-2-3.b.backup-monitor.gr.'',
               reply_rcode = NXDOMAIN \<rparr>
   \<and> fst (resolve \<lparr> connect_result = None, insert_result = None, close_result = None \<rparr>
            ''www.example.org.'' None init)
       = Inr \<lparr> reply_qname = ''www.example.org.'', reply_rcode = NXDOMAIN \<rparr>"
  using resolve_always_nxdomain
    [of "\<lparr> connect_result = Some OperationalError, insert_result = None, close_result = None \<rparr>"
        "''abc123.deadbeef.1-2-3.b.backup-monitor.gr.''" "Some (''192.0.2.7'', 40000)" init]
    resolve_always_nxdomain
    [of "\<lparr> connect_result = None, insert_result = Some DataError,
           close_result = Some InterfaceError \<rparr>"
        "''abc123.deadbeef.1-2-3.b.backup-monitor.gr.''" "Some (''192.0.2.7'', 40000)" init]
    resolve_always_nxdomain
    [of "\<lparr> connect_result = None, insert_result = None, close_result = None \<rparr>"
        "''www.example.org.''" None init]
  by (simp add: request_reply_def)

text \<open>
  C6.  A query name that does not end with the suffix, letter case ignored, is not a
  beacon: nothing is decoded, and \<open>resolve\<close> leaves the whole state as it was (no
  connection attempt, no sleep, no row), returning the NXDOMAIN reply.
\<close>

theorem non_beacon_not_logged:
  assumes "\<not> is_beacon qname"
  shows "decode_beacon qname = None
         \<and> resolve env qname source s
             = (Inr \<lparr> reply_qname = qname, reply_rcode = NXDOMAIN \<rparr>, s)"
  using assms by (simp add: decode_beacon_def resolve_def request_reply_def)

theorem non_beacon_not_logged_witness:
  "\<not> is_beacon ''www.example.org.''
   \<and> decode_beacon ''www.example.org.'' = None
   \<and> resolve \<lparr> connect_result = None, insert_result = None, close_result = None \<rparr>
        ''www.example.org.'' (Some (''192.0.2.7'', 40000)) init
       = (Inr \<lparr> reply_qname = ''www.example.org.'', reply_rcode = NXDOMAIN \<rparr>, init)
   \<and> dns_beacon_log (snd (resolve \<lparr> connect_result = None, insert_result = None,
                                     close_result = None \<rparr>
                             ''b.backup-monitor.gr.'' (Some (''192.0.2.7'', 40000)) init)) = []"
proof -
  have n1: "\<not> is_beacon ''www.example.org.''"
    by (simp add: is_beacon_def str_endswith_def str_lower_def lower_char_def BEACON_SUFFIX_def)
  have n2: "\<not> is_beacon ''b.backup-monitor.gr.''"
    by (simp add: is_beacon_def str_endswith_def str_lower_def lower_char_def BEACON_SUFFIX_def)
  show ?thesis
    using n1 non_beacon_not_logged [OF n1] non_beacon_not_logged [OF n2]
    by (simp add: init_def)
qed

text \<open>
  C3.  Connection attempts that fail one after the other, starting from a resolver
  without a usable connection whose backoff is 1 (as after \<open>__init__\<close> or after a
  successful connect): the \<open>n\<close> delays slept are \<open>min (2 ^ i) 60\<close> for \<open>i = 0, ..., n - 1\<close>,
  that is 1, 2, 4, 8, 16, 32, 60, 60, ...; each failing call makes one attempt, sleeps
  the current delay, doubles it up to 60 and returns \<open>None\<close>; a delay that is at most 60
  stays so; a successful connect returns the connection and sets the delay back to 1.
\<close>

theorem backoff_sequence:
  "(needs_connect s \<and> backoff s = 1 \<and> (\<forall>env \<in> set envs. connect_result env \<noteq> None)
      \<longrightarrow> sleeps (get_conn_calls envs s)
            = sleeps s @ map (\<lambda>i. min (2 ^ i) 60) [0..<length envs]
          \<and> backoff (get_conn_calls envs s) = min (2 ^ length envs) 60
          \<and> connect_calls (get_conn_calls envs s) = connect_calls s + length envs
          \<and> needs_connect (get_conn_calls envs s))
   \<and> (needs_connect s \<and> connect_result env \<noteq> None
      \<longrightarrow> fst (get_conn env s) = None
          \<and> conn (snd (get_conn env s)) = None
          \<and> connect_calls (snd (get_conn env s)) = connect_calls s + 1
          \<and> sleeps (snd (get_conn env s)) = sleeps s @ [backoff s]
          \<and> backoff (snd (get_conn env s)) = min (backoff s * 2) 60)
   \<and> (backoff s \<le> 60 \<longrightarrow> backoff (snd (get_conn env s)) \<le> 60)
   \<and> (needs_connect s \<and> connect_result env = None
      \<longrightarrow> fst (get_conn env s) = Some \<lparr> closed = False, autocommit = True \<rparr>
          \<and> conn (snd (get_conn env s)) = fst (get_conn env s)
          \<and> sleeps (snd (get_conn env s)) = sleeps s
          \<and> backoff (snd (get_conn env s)) = 1)"
proof -
  have a: "sleeps (get_conn_calls envs s)
             = sleeps s @ map (\<lambda>i. min (2 ^ i) 60) [0..<length envs]
           \<and> backoff (get_conn_calls envs s) = min (2 ^ length envs) 60
           \<and> connect_calls (get_conn_calls envs s) = connect_calls s + length envs
           \<and> needs_connect (get_conn_calls envs s)"
    if "needs_connect s" "backoff s = 1" "\<forall>env \<in> set envs. connect_result env \<noteq> None"
    using get_conn_calls_failing [of s 0 envs] that by simp
  have b: "fst (get_conn env s) = None
           \<and> conn (snd (get_conn env s)) = None
           \<and> connect_calls (snd (get_conn env s)) = connect_calls s + 1
           \<and> sleeps (snd (get_conn env s)) = sleeps s @ [backoff s]
           \<and> backoff (snd (get_conn env s)) = min (backoff s * 2) 60"
    if "needs_connect s" "connect_result env \<noteq> None"
  proof -
    from that(2) obtain e where "connect_result env = Some e" by auto
    with that(1) show ?thesis by (simp add: get_conn_failure)
  qed
  have c: "backoff (snd (get_conn env s)) \<le> 60" if "backoff s \<le> 60"
    using that by (rule get_conn_backoff_le)
  have d: "fst (get_conn env s) = Some \<lparr> closed = False, autocommit = True \<rparr>
           \<and> conn (snd (get_conn env s)) = fst (get_conn env s)
           \<and> sleeps (snd (get_conn env s)) = sleeps s
           \<and> backoff (snd (get_conn env s)) = 1"
    if "needs_connect s" "connect_result env = None"
    using that by (simp add: get_conn_success)
  from a b c d show ?thesis by blast
qed

theorem backoff_sequence_witness:
  "sleeps (get_conn_calls
             (replicate 8 \<lparr> connect_result = Some OperationalError, insert_result = None,
                            close_result = None \<rparr>) init)
     = [1, 2, 4, 8, 16, 32, 60, 60]
   \<and> fst (get_conn \<lparr> connect_result = Some OperationalError, insert_result = None,
                     close_result = None \<rparr> init) = None
   \<and> backoff (snd (get_conn \<lparr> connect_result = Some OperationalError, insert_result = None,
                               close_result = None \<rparr> init)) = 2
   \<and> backoff (snd (get_conn \<lparr> connect_result = None, insert_result = None,
                               close_result = None \<rparr>
                 (init\<lparr> backoff := 32 \<rparr>))) = 1"
  using backoff_sequence
    [of init "replicate 8 \<lparr> connect_result = Some OperationalError, insert_result = None,
                             close_result = None \<rparr>"
        "\<lparr> connect_result = Some OperationalError, insert_result = None, close_result = None \<rparr>"]
    backoff_sequence
    [of "init\<lparr> backoff := 32 \<rparr>" "[]"
        "\<lparr> connect_result = None, insert_result = None, close_result = None \<rparr>"]
  by (simp add: init_def needs_connect_def upt_rec)

lemma get_conn_close_calls: "close_calls (snd (get_conn env s)) = close_calls s"
  by (simp add: get_conn_def split: option.splits)

lemma get_conn_dns_beacon_log: "dns_beacon_log (snd (get_conn env s)) = dns_beacon_log s"
  by (simp add: get_conn_def split: option.splits)

lemma log_beacon_insert_failure:
  assumes "insert_result env = Some e" and "get_conn env s = (Some c, s1)"
  shows "log_beacon env row s
           = (Inr (), (snd (close_conn env s1))\<lparr> conn := None \<rparr>)"
  using assms
  by (simp add: log_beacon_def execute_insert_def split: prod.splits)

lemma close_conn_counted:
  "close_calls (snd (close_conn env s)) = close_calls s + 1
   \<and> dns_beacon_log (snd (close_conn env s)) = dns_beacon_log s
   \<and> connect_calls (snd (close_conn env s)) = connect_calls s"
  by (simp add: close_conn_def split: option.splits)

lemma close_conn_closes:
  assumes "close_result env = None" and "conn s = Some c"
  shows "conn (snd (close_conn env s)) = Some (c\<lparr> closed := True \<rparr>)"
  using assms by (simp add: close_conn_def)

text \<open>
  C4.  \<open>_log_beacon\<close> never lets an exception out.  When a connection is at hand and the
  insert raises, whatever the error: \<open>close\<close> is called once on the connection, and
  whether or not that call succeeds the method returns normally, no row is added and the
  resolver has no connection afterwards, so the next call of \<open>_get_conn\<close> makes a
  connection attempt (and returns the new connection when the attempt succeeds); and
  \<open>resolve\<close> still returns its NXDOMAIN reply.  When the insert does not raise, \<open>close\<close>
  is not called.
\<close>

theorem insert_error_swallowed:
  "fst (log_beacon env row s) = Inr ()
   \<and> (insert_result env \<noteq> None \<and> fst (get_conn env s) \<noteq> None
      \<longrightarrow> close_calls (snd (log_beacon env row s)) = close_calls s + 1
          \<and> snd (log_beacon env row s)
              = (snd (close_conn env (snd (get_conn env s))))\<lparr> conn := None \<rparr>
          \<and> conn (snd (log_beacon env row s)) = None
          \<and> dns_beacon_log (snd (log_beacon env row s)) = dns_beacon_log s
          \<and> connect_calls (snd (get_conn env' (snd (log_beacon env row s))))
              = connect_calls (snd (log_beacon env row s)) + 1
          \<and> (connect_result env' = None
               \<longrightarrow> fst (get_conn env' (snd (log_beacon env row s)))
                     = Some \<lparr> closed = False, autocommit = True \<rparr>)
          \<and> fst (resolve env qname source s)
              = Inr \<lparr> reply_qname = qname, reply_rcode = NXDOMAIN \<rparr>)
   \<and> (insert_result env = None
      \<longrightarrow> close_calls (snd (log_beacon env row s)) = close_calls s)"
proof -
  let ?t = "snd (log_beacon env row s)"
  have failure: "close_calls ?t = close_calls s + 1
      \<and> ?t = (snd (close_conn env (snd (get_conn env s))))\<lparr> conn := None \<rparr>
      \<and> conn ?t = None \<and> dns_beacon_log ?t = dns_beacon_log s"
    if "insert_result env \<noteq> None" "fst (get_conn env s) \<noteq> None"
  proof -
    from that obtain e c where e: "insert_result env = Some e"
      and c: "fst (get_conn env s) = Some c"
      by auto
    obtain s1 where g: "get_conn env s = (Some c, s1)"
      using c by (cases "get_conn env s") simp
    from g have s1: "close_calls s1 = close_calls s" "dns_beacon_log s1 = dns_beacon_log s"
      using get_conn_close_calls [of env s] get_conn_dns_beacon_log [of env s] by simp_all
    have t: "?t = (snd (close_conn env s1))\<lparr> conn := None \<rparr>"
      using log_beacon_insert_failure [OF e g, of row] by simp
    with s1 g close_conn_counted [of env s1] show ?thesis by simp
  qed
  have next_call: "connect_calls (snd (get_conn env' ?t)) = connect_calls ?t + 1
      \<and> (connect_result env' = None
           \<longrightarrow> fst (get_conn env' ?t) = Some \<lparr> closed = False, autocommit = True \<rparr>)"
    if "conn ?t = None"
  proof -
    from that have "needs_connect ?t" by (simp add: needs_connect_def)
    then show ?thesis
      by (cases "connect_result env'") (simp_all add: get_conn_failure get_conn_success)
  qed
  have success: "close_calls ?t = close_calls s" if "insert_result env = None"
  proof (cases "get_conn env s")
    case (Pair c s1)
    with get_conn_close_calls [of env s] have "close_calls s1 = close_calls s" by simp
    with Pair that show ?thesis
      by (cases c) (simp_all add: log_beacon_def execute_insert_def)
  qed
  from failure next_call success log_beacon_no_exception [of env row s]
    resolve_reply [of env qname source s]
  show ?thesis by blast
qed

theorem insert_error_swallowed_witness:
  "log_beacon \<lparr> connect_result = None, insert_result = Some OperationalError,
                close_result = Some InterfaceError \<rparr>
      \<lparr> row_source_ip = Some ''192.0.2.7'', row_source_port = Some 40000,
        row_query_name = ''abc123.b.backup-monitor.gr.'', row_fingerprint = Some ''abc123'',
        row_src_hash = None, row_tool_version = None \<rparr> init
     = (Inr (), init\<lparr> connect_calls := 1, close_calls := 1 \<rparr>)
   \<and> log_beacon \<lparr> connect_result = None, insert_result = Some OperationalError,
                  close_result = None \<rparr>
      \<lparr> row_source_ip = Some ''192.0.2.7'', row_source_port = Some 40000,
        row_query_name = ''abc123.b.backup-monitor.gr.'', row_fingerprint = Some ''abc123'',
        row_src_hash = None, row_tool_version = None \<rparr> init
     = (Inr (), init\<lparr> connect_calls := 1, close_calls := 1 \<rparr>)
   \<and> connect_calls (snd (get_conn \<lparr> connect_result = None, insert_result = None,
                                    close_result = None \<rparr>
                            (init\<lparr> connect_calls := 1, close_calls := 1 \<rparr>))) = 2
   \<and> close_calls (snd (log_beacon \<lparr> connect_result = None, insert_result = None,
                                    close_result = None \<rparr>
      \<lparr> row_source_ip = Some ''192.0.2.7'', row_source_port = Some 40000,
        row_query_name = ''abc123.b.backup-monitor.gr.'', row_fingerprint = Some ''abc123'',
        row_src_hash = None, row_tool_version = None \<rparr> init)) = 0"
  using insert_error_swallowed
    [of "\<lparr> connect_result = None, insert_result = Some OperationalError,
           close_result = Some InterfaceError \<rparr>"
        "\<lparr> row_source_ip = Some ''192.0.2.7'', row_source_port = Some 40000,
           row_query_name = ''abc123.b.backup-monitor.gr.'', row_fingerprint = Some ''abc123'',
           row_src_hash = None, row_tool_version = None \<rparr>"
        init
        "\<lparr> connect_result = None, insert_result = None, close_result = None \<rparr>"
        "''abc123.b.backup-monitor.gr.''" "Some (''192.0.2.7'', 40000)"]
  by (simp add: resolve_eval)

section \<open>The telemetry ingest endpoint\<close>

lemma str_replace_trailing:
  assumes "c \<notin> set p"
  shows "str_replace c new (p @ [c]) = p @ new"
proof -
  from assms have "concat (map (\<lambda>x. if x = c then new else [x]) p) = p"
    by (induction p) auto
  then show ?thesis by (simp add: str_replace_def)
qed

lemma parse_client_ts_absent:
  assumes "map_of kvs ''timestamp'' = None"
  shows "parse_client_ts parse kvs = Inr None"
  using assms by (simp add: parse_client_ts_def dict_get_def)

lemma parse_client_ts_str:
  assumes "map_of kvs ''timestamp'' = Some (JStr t)"
  shows "parse_client_ts parse kvs
           = Inr (if t = [] then None else parse (str_replace (CHR ''Z'') ''+00:00'' t))"
  using assms
  by (simp add: parse_client_ts_def dict_get_def datetime_fromisoformat_def split: option.splits)

lemma parse_client_ts_not_str:
  assumes "map_of kvs ''timestamp'' = Some v" and "\<forall>t. v \<noteq> JStr t"
  shows "parse_client_ts parse kvs = Inr None"
  using assms by (cases v) (simp_all add: parse_client_ts_def dict_get_def)

lemma parse_client_ts_total: "\<exists>ts. parse_client_ts parse kvs = Inr ts"
proof (cases "map_of kvs ''timestamp''")
  case None
  then show ?thesis by (simp add: parse_client_ts_absent)
next
  case (Some v)
  show ?thesis
  proof (cases "\<exists>t. v = JStr t")
    case True
    with Some show ?thesis by (auto simp: parse_client_ts_str)
  next
    case False
    with Some show ?thesis by (simp add: parse_client_ts_not_str)
  qed
qed

text \<open>
  C7.  For a POST whose body is a JSON object \<open>kvs\<close>, with the store accepting the
  insert: the request succeeds with \<open>{"status": "ok"}\<close> whatever the \<open>timestamp\<close> entry
  is, since parsing it never raises; the stored event is \<open>"unknown"\<close> when the key
  \<open>event\<close> is missing; a non-empty string timestamp is stored as what
  \<open>datetime.fromisoformat\<close> returns for the text with \<open>Z\<close> replaced by \<open>+00:00\<close> (for a
  text ending with its only \<open>Z\<close>: the text with \<open>+00:00\<close> in place of that \<open>Z\<close>), null
  when the text is rejected; an absent timestamp and one that is not a string are
  stored as null.
\<close>

theorem ingest_event_default_and_lenient_timestamp:
  "(\<exists>ts row. parse_client_ts parse kvs = Inr ts
        \<and> ingest_telemetry parse None source_ip (JObj kvs)
            = Inr ([(''status'', JStr ''ok'')], row)
        \<and> ev_client_timestamp row = ts
        \<and> ev_raw_payload row = kvs
        \<and> (map_of kvs ''event'' = None \<longrightarrow> ev_event row = JStr ''unknown'')
        \<and> (\<forall>v. map_of kvs ''event'' = Some v \<longrightarrow> ev_event row = v))
   \<and> (map_of kvs ''timestamp'' = Some (JStr t) \<and> t \<noteq> []
        \<longrightarrow> parse_client_ts parse kvs = Inr (parse (str_replace (CHR ''Z'') ''+00:00'' t)))
   \<and> (map_of kvs ''timestamp'' = Some (JStr (p @ ''Z'')) \<and> CHR ''Z'' \<notin> set p
        \<longrightarrow> parse_client_ts parse kvs = Inr (parse (p @ ''+00:00'')))
   \<and> (map_of kvs ''timestamp'' = Some (JStr t)
         \<and> parse (str_replace (CHR ''Z'') ''+00:00'' t) = None
        \<longrightarrow> parse_client_ts parse kvs = Inr None)
   \<and> (map_of kvs ''timestamp'' = None \<longrightarrow> parse_client_ts parse kvs = Inr None)
   \<and> (map_of kvs ''timestamp'' = Some v \<and> (\<forall>t. v \<noteq> JStr t)
        \<longrightarrow> parse_client_ts parse kvs = Inr None)"
proof -
  obtain ts where ts: "parse_client_ts parse kvs = Inr ts"
    using parse_client_ts_total by blast
  then have first: "\<exists>ts row. parse_client_ts parse kvs = Inr ts
        \<and> ingest_telemetry parse None source_ip (JObj kvs)
            = Inr ([(''status'', JStr ''ok'')], row)
        \<and> ev_client_timestamp row = ts
        \<and> ev_raw_payload row = kvs
        \<and> (map_of kvs ''event'' = None \<longrightarrow> ev_event row = JStr ''unknown'')
        \<and> (\<forall>v. map_of kvs ''event'' = Some v \<longrightarrow> ev_event row = v)"
    by (simp add: ingest_telemetry_def dict_get_default_def)
  have trailing: "parse_client_ts parse kvs = Inr (parse (p @ ''+00:00''))"
    if "map_of kvs ''timestamp'' = Some (JStr (p @ ''Z''))" "CHR ''Z'' \<notin> set p"
    using that str_replace_trailing [of "CHR ''Z''" p "''+00:00''"]
    by (simp add: parse_client_ts_str)
  from first trailing show ?thesis
    by (simp add: parse_client_ts_str parse_client_ts_absent parse_client_ts_not_str)
qed

theorem ingest_event_default_and_lenient_timestamp_witness:
  "(case ingest_telemetry
           (\<lambda>s. if s = ''2024-01-01T00:00:00+00:00'' then Some (1704067200::int) else None)
           None ''198.51.100.4''
           (JObj [(''fingerprint'', JStr ''abc123''),
                  (''timestamp'', JStr ''2024-01-01T00:00:00Z'')]) of
      Inl e \<Rightarrow> False
    | Inr (response, row) \<Rightarrow>
        response = [(''status'', JStr ''ok'')] \<and> ev_event row = JStr ''unknown''
        \<and> ev_client_timestamp row = Some 1704067200)
   \<and> (case ingest_telemetry
           (\<lambda>s. if s = ''2024-01-01T00:00:00+00:00'' then Some (1704067200::int) else None)
           None ''198.51.100.4''
           (JObj [(''event'', JStr ''run''), (''timestamp'', JStr ''not-a-date'')]) of
      Inl e \<Rightarrow> False
    | Inr (response, row) \<Rightarrow>
        response = [(''status'', JStr ''ok'')] \<and> ev_event row = JStr ''run''
        \<and> ev_client_timestamp row = None)
   \<and> (case ingest_telemetry
           (\<lambda>s. if s = ''2024-01-01T00:00:00+00:00'' then Some (1704067200::int) else None)
           None ''198.51.100.4''
           (JObj [(''timestamp'', JInt 1704067200)]) of
      Inl e \<Rightarrow> False
    | Inr (response, row) \<Rightarrow>
        response = [(''status'', JStr ''ok'')] \<and> ev_client_timestamp row = None)"
  using ingest_event_default_and_lenient_timestamp
    [of "\<lambda>s. if s = ''2024-01-01T00:00:00+00:00'' then Some (1704067200::int) else None"
        "[(''fingerprint'', JStr ''abc123''), (''timestamp'', JStr ''2024-01-01T00:00:00Z'')]"
        "''198.51.100.4''" "''2024-01-01T00:00:00Z''" "''2024-01-01T00:00:00''" "JNull"]
  by (simp add: ingest_telemetry_def parse_client_ts_def dict_get_def dict_get_default_def
      datetime_fromisoformat_def str_replace_def)

section \<open>The query endpoints\<close>

lemmas query_eval =
  query_telemetry_def query_dns_def given_def datetime_fromisoformat_def

text \<open>
  C8.  A \<open>since\<close> parameter that is not empty and that \<open>datetime.fromisoformat\<close> rejects
  once \<open>Z\<close> is replaced by \<open>+00:00\<close>: both endpoints return status 400 with the body
  \<open>{"error": "invalid 'since' format"}\<close>, whatever the other parameters are, and do not
  reach the call of \<open>pool.fetch\<close>.
\<close>

theorem malformed_since_is_client_error:
  assumes "since \<noteq> []" and "parse (str_replace (CHR ''Z'') ''+00:00'' since) = None"
  shows "query_telemetry parse fingerprint environment (Some since) limit_arg
           = JSONResponse [(''error'', JStr ''invalid 'since' format'')] 400
         \<and> query_dns parse fingerprint (Some since) limit_arg
           = JSONResponse [(''error'', JStr ''invalid 'since' format'')] 400
         \<and> (\<forall>sql args.
               query_telemetry parse fingerprint environment (Some since) limit_arg
                 \<noteq> Fetch sql args
               \<and> query_dns parse fingerprint (Some since) limit_arg \<noteq> Fetch sql args)"
  using assms by (simp add: query_eval split: option.splits)

theorem malformed_since_is_client_error_witness:
  "query_telemetry
      (\<lambda>s. if s = ''2024-01-01T00:00:00+00:00'' then Some (1704067200::int) else None)
      (Some ''abc123'') None (Some ''not-a-date'') (Some 10)
     = JSONResponse [(''error'', JStr ''invalid 'since' format'')] 400
   \<and> query_dns
      (\<lambda>s. if s = ''2024-01-01T00:00:00+00:00'' then Some (1704067200::int) else None)
      (Some ''abc123'') (Some ''not-a-date'') (Some 10)
     = JSONResponse [(''error'', JStr ''invalid 'since' format'')] 400"
  using malformed_since_is_client_error
    [of "''not-a-date''"
        "\<lambda>s. if s = ''2024-01-01T00:00:00+00:00'' then Some (1704067200::int) else None"
        "Some ''abc123''" None "Some 10"]
  by (simp add: str_replace_def)


lemma query_telemetry_fetch:
  assumes "query_telemetry parse fingerprint environment since limit_arg = Fetch sql args"
  shows "\<exists>filters where.
           args = filters
                    @ [PInt (min (max 1 (case limit_arg of None \<Rightarrow> 100 | Some l \<Rightarrow> l)) 1000)]
           \<and> sql = ''SELECT * FROM telemetry_events '' @ where
                    @ '' ORDER BY received_at DESC LIMIT $'' @ str_int (int (length args))"
proof -
  \<comment> \<open>The texts are named, so that the case analysis does not rewrite inside them.\<close>
  define A where "A = ''SELECT * FROM telemetry_events ''"
  define B where "B = '' ORDER BY received_at DESC LIMIT $''"
  define W where "W = ''WHERE ''"
  define J where "J = '' AND ''"
  define F where "F = ''fingerprint = $''"
  define E where "E = ''environment = $''"
  define R where "R = ''received_at >= $''"
  define Z where "Z = ''+00:00''"
  define M where "M = ''invalid 'since' format''"
  note names = A_def [symmetric] B_def [symmetric] W_def [symmetric] J_def [symmetric]
    F_def [symmetric] E_def [symmetric] R_def [symmetric] Z_def [symmetric] M_def [symmetric]
  show ?thesis
    using assms
    unfolding query_telemetry_def datetime_fromisoformat_def names
    by (auto simp: Let_def split: option.splits)
qed

lemma query_dns_fetch:
  assumes "query_dns parse fingerprint since limit_arg = Fetch sql args"
  shows "\<exists>filters where.
           args = filters
                    @ [PInt (min (max 1 (case limit_arg of None \<Rightarrow> 100 | Some l \<Rightarrow> l)) 1000)]
           \<and> sql = ''SELECT * FROM dns_beacon_log '' @ where
                    @ '' ORDER BY received_at DESC LIMIT $'' @ str_int (int (length args))"
proof -
  define A where "A = ''SELECT * FROM dns_beacon_log ''"
  define B where "B = '' ORDER BY received_at DESC LIMIT $''"
  define W where "W = ''WHERE ''"
  define J where "J = '' AND ''"
  define F where "F = ''fingerprint = $''"
  define R where "R = ''received_at >= $''"
  define Z where "Z = ''+00:00''"
  define M where "M = ''invalid 'since' format''"
  note names = A_def [symmetric] B_def [symmetric] W_def [symmetric] J_def [symmetric]
    F_def [symmetric] R_def [symmetric] Z_def [symmetric] M_def [symmetric]
  show ?thesis
    using assms
    unfolding query_dns_def datetime_fromisoformat_def names
    by (auto simp: Let_def split: option.splits)
qed

text \<open>
  C9.  Whenever one of the two query endpoints calls \<open>pool.fetch\<close>, the last argument of
  the call is \<open>min (max 1 limit) 1000\<close>, where \<open>limit\<close> is the requested value, 100 when
  the request has none, and the statement ends with \<open>LIMIT $n\<close> for the position \<open>n\<close> of
  that argument.  So 5000 gives 1000, 0 gives 1, and no value gives 100.
\<close>

theorem limit_clamped:
  "(query_telemetry parse fingerprint environment since limit_arg = Fetch sql args
      \<longrightarrow> args \<noteq> []
          \<and> last args
              = PInt (min (max 1 (case limit_arg of None \<Rightarrow> 100 | Some l \<Rightarrow> l)) 1000)
          \<and> (\<exists>where. sql = ''SELECT * FROM telemetry_events '' @ where
                 @ '' ORDER BY received_at DESC LIMIT $'' @ str_int (int (length args))))
   \<and> (query_dns parse fingerprint since limit_arg = Fetch sql' args'
      \<longrightarrow> args' \<noteq> []
          \<and> last args'
              = PInt (min (max 1 (case limit_arg of None \<Rightarrow> 100 | Some l \<Rightarrow> l)) 1000)
          \<and> (\<exists>where. sql' = ''SELECT * FROM dns_beacon_log '' @ where
                 @ '' ORDER BY received_at DESC LIMIT $'' @ str_int (int (length args'))))"
proof -
  have t: "args \<noteq> []
          \<and> last args
              = PInt (min (max 1 (case limit_arg of None \<Rightarrow> 100 | Some l \<Rightarrow> l)) 1000)
          \<and> (\<exists>where. sql = ''SELECT * FROM telemetry_events '' @ where
                 @ '' ORDER BY received_at DESC LIMIT $'' @ str_int (int (length args)))"
    if "query_telemetry parse fingerprint environment since limit_arg = Fetch sql args"
    using query_telemetry_fetch [OF that] by auto
  have d: "args' \<noteq> []
          \<and> last args'
              = PInt (min (max 1 (case limit_arg of None \<Rightarrow> 100 | Some l \<Rightarrow> l)) 1000)
          \<and> (\<exists>where. sql' = ''SELECT * FROM dns_beacon_log '' @ where
                 @ '' ORDER BY received_at DESC LIMIT $'' @ str_int (int (length args')))"
    if "query_dns parse fingerprint since limit_arg = Fetch sql' args'"
    using query_dns_fetch [OF that] by auto
  from t d show ?thesis by blast
qed

theorem limit_clamped_witness:
  "query_telemetry
      (\<lambda>s. if s = ''2024-01-01T00:00:00+00:00'' then Some (1704067200::int) else None)
      (Some ''abc123'') (Some ''prod'') (Some ''2024-01-01T00:00:00Z'') (Some 5000)
     = Fetch ''SELECT * FROM telemetry_events WHERE fingerprint = $1 AND environment = $2 AND received_at >= $3 ORDER BY received_at DESC LIMIT $4''
         [PStr ''abc123'', PStr ''prod'', PTime 1704067200, PInt 1000]
   \<and> query_dns
      (\<lambda>s. if s = ''2024-01-01T00:00:00+00:00'' then Some (1704067200::int) else None)
      (Some ''abc123'') None (Some 0)
     = Fetch ''SELECT * FROM dns_beacon_log WHERE fingerprint = $1 ORDER BY received_at DESC LIMIT $2''
         [PStr ''abc123'', PInt 1]
   \<and> query_dns
      (\<lambda>s. if s = ''2024-01-01T00:00:00+00:00'' then Some (1704067200::int) else None)
      None None None
     = Fetch ''SELECT * FROM dns_beacon_log  ORDER BY received_at DESC LIMIT $1'' [PInt 100]
   \<and> query_telemetry
      (\<lambda>s. if s = ''2024-01-01T00:00:00+00:00'' then Some (1704067200::int) else None)
      None None None (Some (- 3))
     = Fetch ''SELECT * FROM telemetry_events  ORDER BY received_at DESC LIMIT $1'' [PInt 1]"
  using limit_clamped
    [of "\<lambda>s. if s = ''2024-01-01T00:00:00+00:00'' then Some (1704067200::int) else None"
        "Some ''abc123''" "Some ''prod''" "Some ''2024-01-01T00:00:00Z''" "Some 5000"
        "''SELECT * FROM telemetry_events WHERE fingerprint = $1 AND environment = $2 AND received_at >= $3 ORDER BY received_at DESC LIMIT $4''"
        "[PStr ''abc123'', PStr ''prod'', PTime 1704067200, PInt 1000]"]
  by (simp add: query_eval str_replace_def str_int_def digit_char_def)

text \<open>
  C10.  On both query endpoints a parameter given as the empty string is handled as the
  parameter left out: the result (the statement and its arguments, or the response) is
  the same, for \<open>fingerprint\<close>, \<open>environment\<close> and \<open>since\<close>; with an empty \<open>since\<close> the
  endpoint calls \<open>pool.fetch\<close> and does not return the 400 response.
\<close>

theorem empty_parameter_is_absent:
  "query_telemetry parse (Some '''') environment since limit_arg
     = query_telemetry parse None environment since limit_arg
   \<and> query_telemetry parse fingerprint (Some '''') since limit_arg
     = query_telemetry parse fingerprint None since limit_arg
   \<and> query_telemetry parse fingerprint environment (Some '''') limit_arg
     = query_telemetry parse fingerprint environment None limit_arg
   \<and> query_dns parse (Some '''') since limit_arg = query_dns parse None since limit_arg
   \<and> query_dns parse fingerprint (Some '''') limit_arg
     = query_dns parse fingerprint None limit_arg
   \<and> (\<exists>sql args. query_telemetry parse fingerprint environment (Some '''') limit_arg
                    = Fetch sql args)
   \<and> (\<exists>sql args. query_dns parse fingerprint (Some '''') limit_arg = Fetch sql args)"
  by (simp add: query_eval split: option.splits)

theorem empty_parameter_is_absent_witness:
  "query_telemetry
      (\<lambda>s. if s = ''2024-01-01T00:00:00+00:00'' then Some (1704067200::int) else None)
      (Some '''') (Some '''') (Some '''') None
     = Fetch ''SELECT * FROM telemetry_events  ORDER BY received_at DESC LIMIT $1'' [PInt 100]
   \<and> query_dns
      (\<lambda>s. if s = ''2024-01-01T00:00:00+00:00'' then Some (1704067200::int) else None)
      (Some ''abc123'') (Some '''') None
     = Fetch ''SELECT * FROM dns_beacon_log WHERE fingerprint = $1 ORDER BY received_at DESC LIMIT $2''
         [PStr ''abc123'', PInt 100]"
  using empty_parameter_is_absent
    [of "\<lambda>s. if s = ''2024-01-01T00:00:00+00:00'' then Some (1704067200::int) else None"
        "Some ''''" "Some ''''" None "Some ''abc123''"]
  by (simp add: query_eval str_int_def digit_char_def)

end
